theory Spec2Isabelle
  imports Main "HOL-Library.Sublist"
begin

section \<open>Python values and exceptions\<close>

text \<open>
  The analysis result travels through the program as a plain Python dictionary
  (\<^verbatim>\<open>Dict[str, Any]\<close>): nested dictionaries with string keys, strings, lists and
  \<^verbatim>\<open>None\<close>. A dictionary is an association list read with \<open>map_of\<close>; its keys
  are meant to be distinct, as the keys of a Python dictionary are.
\<close>

datatype pyval =
    PyNone
  | PyStr string
  | PyList "pyval list"
  | PyDict "(string \<times> pyval) list"

text \<open>
  A place inside a candidate (pydantic's \<^verbatim>\<open>loc\<close>) and the kind of one validation
  error: a required field that is absent, a value that is not a string, not a list,
  or not a dictionary where a nested model is expected.
\<close>

datatype loc = Key string | Idx nat

datatype err_kind = missing | string_type | list_type | model_type

type_synonym err_detail = "loc list \<times> err_kind"

text \<open>
  The exceptions the program can let escape. \<open>ExternalError\<close> is any exception
  raised inside the model-invocation library; it is carried unchanged.
\<close>

datatype error =
    KeyError string
  | TypeError
  | AttributeError string
  | ValidationError "err_detail list"
  | ExternalError string

text \<open>\<^verbatim>\<open>obj[key]\<close> with a string key.\<close>

fun subscript :: "pyval \<Rightarrow> string \<Rightarrow> error + pyval" where
  "subscript (PyDict kvs) k =
     (case map_of kvs k of None \<Rightarrow> Inl (KeyError k) | Some v \<Rightarrow> Inr v)"
| "subscript (PyStr s) k = Inl TypeError"
| "subscript (PyList xs) k = Inl TypeError"
| "subscript PyNone k = Inl TypeError"

text \<open>\<^verbatim>\<open>obj[k1][k2]\<close>: the outer subscript first, its exception first.\<close>

definition subscript2 :: "pyval \<Rightarrow> string \<Rightarrow> string \<Rightarrow> error + pyval" where
  "subscript2 obj k1 k2 =
     (case subscript obj k1 of Inl e \<Rightarrow> Inl e | Inr v \<Rightarrow> subscript v k2)"

section \<open>Schema definitions\<close>

text \<open>
  The three pydantic classes of the source. Every field is declared without a
  default, so every field is required; every leaf is typed \<^verbatim>\<open>str\<close>, and
  \<^verbatim>\<open>questions\<close> is \<^verbatim>\<open>List[str]\<close>. The \<^verbatim>\<open>description\<close> of a field is
  documentation only.
\<close>

record Parties =
  client :: string
  counterparty :: string

record AgreementReference =
  type :: string
  date :: string

record EmailAnalysisSchema =
  intent :: string
  primary_topic :: string
  parties :: Parties
  agreement_reference :: AgreementReference
  questions :: "string list"
  requested_due_date :: string
  urgency_level :: string

text \<open>
  Construction of a class instance from a candidate value, as pydantic performs
  it for these declarations: a missing field is an error, a field of the wrong
  shape is an error, keys that are not declared are ignored, and all the errors
  of a candidate are collected, in the order of the declared fields.
\<close>

type_synonym 'a validated = "err_detail list + 'a"

fun errs :: "'a validated \<Rightarrow> err_detail list" where
  "errs (Inl es) = es"
| "errs (Inr v) = []"

definition validate_str :: "loc list \<Rightarrow> pyval \<Rightarrow> string validated" where
  "validate_str l v = (case v of PyStr s \<Rightarrow> Inr s | _ \<Rightarrow> Inl [(l, string_type)])"

fun validate_items :: "loc list \<Rightarrow> nat \<Rightarrow> pyval list \<Rightarrow> string list validated" where
  "validate_items l i [] = Inr []"
| "validate_items l i (v # vs) =
     (let r = validate_str (l @ [Idx i]) v; rs = validate_items l (Suc i) vs
      in if errs r @ errs rs = [] then Inr (projr r # projr rs)
         else Inl (errs r @ errs rs))"

definition validate_str_list :: "loc list \<Rightarrow> pyval \<Rightarrow> string list validated" where
  "validate_str_list l v =
     (case v of PyList vs \<Rightarrow> validate_items l 0 vs | _ \<Rightarrow> Inl [(l, list_type)])"

definition required ::
  "(string \<times> pyval) list \<Rightarrow> string \<Rightarrow> (loc list \<Rightarrow> pyval \<Rightarrow> 'a validated) \<Rightarrow> loc list \<Rightarrow> 'a validated" where
  "required kvs k val l =
     (case map_of kvs k of
        None \<Rightarrow> Inl [(l @ [Key k], missing)]
      | Some v \<Rightarrow> val (l @ [Key k]) v)"

definition validate_Parties :: "loc list \<Rightarrow> pyval \<Rightarrow> Parties validated" where
  "validate_Parties l v =
     (case v of
        PyDict kvs \<Rightarrow>
          (let c = required kvs ''client'' validate_str l;
               p = required kvs ''counterparty'' validate_str l
           in if errs c @ errs p = []
              then Inr \<lparr>client = projr c, counterparty = projr p\<rparr>
              else Inl (errs c @ errs p))
      | _ \<Rightarrow> Inl [(l, model_type)])"

definition validate_AgreementReference ::
  "loc list \<Rightarrow> pyval \<Rightarrow> AgreementReference validated" where
  "validate_AgreementReference l v =
     (case v of
        PyDict kvs \<Rightarrow>
          (let t = required kvs ''type'' validate_str l;
               d = required kvs ''date'' validate_str l
           in if errs t @ errs d = []
              then Inr \<lparr>type = projr t, date = projr d\<rparr>
              else Inl (errs t @ errs d))
      | _ \<Rightarrow> Inl [(l, model_type)])"

definition validate_fields ::
  "(string \<times> pyval) list \<Rightarrow> EmailAnalysisSchema validated" where
  "validate_fields kvs =
     (let i = required kvs ''intent'' validate_str [];
          t = required kvs ''primary_topic'' validate_str [];
          p = required kvs ''parties'' validate_Parties [];
          a = required kvs ''agreement_reference'' validate_AgreementReference [];
          q = required kvs ''questions'' validate_str_list [];
          d = required kvs ''requested_due_date'' validate_str [];
          u = required kvs ''urgency_level'' validate_str [];
          es = errs i @ errs t @ errs p @ errs a @ errs q @ errs d @ errs u
      in if es = []
         then Inr \<lparr>intent = projr i, primary_topic = projr t, parties = projr p,
                   agreement_reference = projr a, questions = projr q,
                   requested_due_date = projr d, urgency_level = projr u\<rparr>
         else Inl es)"

definition validate :: "pyval \<Rightarrow> error + EmailAnalysisSchema" where
  "validate candidate =
     (case candidate of
        PyDict kvs \<Rightarrow>
          (case validate_fields kvs of
             Inl es \<Rightarrow> Inl (ValidationError es)
           | Inr r \<Rightarrow> Inr r)
      | _ \<Rightarrow> Inl (ValidationError [([], model_type)]))"

text \<open>\<^verbatim>\<open>instance.dict()\<close>: the instance as nested dictionaries, fields in declaration order.\<close>

definition Parties_dict :: "Parties \<Rightarrow> pyval" where
  "Parties_dict p =
     PyDict [(''client'', PyStr (client p)), (''counterparty'', PyStr (counterparty p))]"

definition AgreementReference_dict :: "AgreementReference \<Rightarrow> pyval" where
  "AgreementReference_dict a =
     PyDict [(''type'', PyStr (type a)), (''date'', PyStr (date a))]"

definition dict :: "EmailAnalysisSchema \<Rightarrow> pyval" where
  "dict r =
     PyDict [(''intent'', PyStr (intent r)),
             (''primary_topic'', PyStr (primary_topic r)),
             (''parties'', Parties_dict (parties r)),
             (''agreement_reference'', AgreementReference_dict (agreement_reference r)),
             (''questions'', PyList (map PyStr (questions r))),
             (''requested_due_date'', PyStr (requested_due_date r)),
             (''urgency_level'', PyStr (urgency_level r))]"

section \<open>The runtime around the service\<close>

text \<open>
  The object built by \<^verbatim>\<open>ChatOpenAI(api_key=..., model=..., temperature=0)\<close>:
  the constructor records its arguments.
\<close>

record ChatOpenAI =
  llm_api_key :: "string option"
  llm_model :: string
  llm_temperature :: int

text \<open>The class handed to \<^verbatim>\<open>with_structured_output\<close>.\<close>

datatype schema_class = EmailAnalysisSchema_class

text \<open>
  One invocation of a chain, as the program hands it to the library: the model
  object, the prompt template as (role, template) pairs, the requested output
  class (if any) and the variables bound by \<^verbatim>\<open>invoke\<close>.
\<close>

record chain_request =
  request_llm :: ChatOpenAI
  request_messages :: "(string \<times> string) list"
  request_schema :: "schema_class option"
  request_input :: "(string \<times> pyval) list"

text \<open>
  What the program takes from its surroundings: the module flag set by the
  guarded import, the process environment, Python's \<^verbatim>\<open>str\<close> of a value that
  is not a string, \<^verbatim>\<open>json.dumps(_, indent=2)\<close>, and the two ways of invoking a
  chain. A structured chain returns an instance of the requested class or
  \<^verbatim>\<open>None\<close>, or raises; a plain chain returns a message whose \<^verbatim>\<open>content\<close> is
  kept here, or raises.
\<close>

record runtime =
  LANGCHAIN_AVAILABLE :: bool
  environ :: "string \<Rightarrow> string option"
  py_str :: "pyval \<Rightarrow> string"
  json_dumps :: "pyval \<Rightarrow> string"
  invoke_structured :: "chain_request \<Rightarrow> error + EmailAnalysisSchema option"
  invoke_chat :: "chain_request \<Rightarrow> error + string"

text \<open>Truth value of an optional string: \<^verbatim>\<open>None\<close> and \<^verbatim>\<open>""\<close> are false.\<close>

fun truthy :: "string option \<Rightarrow> bool" where
  "truthy None = False"
| "truthy (Some s) = (s \<noteq> [])"

text \<open>\<^verbatim>\<open>a or b\<close>.\<close>

definition py_or :: "string option \<Rightarrow> string option \<Rightarrow> string option" where
  "py_or a b = (if truthy a then a else b)"

text \<open>A replacement field \<^verbatim>\<open>{value}\<close> of an f-string: a string is inserted as it is.\<close>

definition format_value :: "runtime \<Rightarrow> pyval \<Rightarrow> string" where
  "format_value rt v = (case v of PyStr s \<Rightarrow> s | _ \<Rightarrow> py_str rt v)"

section \<open>The legal assistant service\<close>

record LegalEmailAssistant =
  api_key :: "string option"
  model_name :: string
  use_mock :: bool
  llm :: "ChatOpenAI option"

definition default_model_name :: string where
  "default_model_name = ''gpt-4-turbo''"

text \<open>
  \<^verbatim>\<open>__init__\<close>: the new object and the lines printed. The attribute \<^verbatim>\<open>llm\<close> is
  set in live mode only.
\<close>

definition LegalEmailAssistant_init ::
  "runtime \<Rightarrow> string option \<Rightarrow> string \<Rightarrow> LegalEmailAssistant \<times> string list" where
  "LegalEmailAssistant_init rt api_key_arg model_name_arg =
     (let key = py_or api_key_arg (environ rt ''OPENAI_API_KEY'');
          mock = (\<not> (truthy key \<and> LANGCHAIN_AVAILABLE rt))
      in if mock
         then (\<lparr>api_key = key, model_name = model_name_arg, use_mock = mock, llm = None\<rparr>,
               [''Running in MOCK MODE (No API Key found or LangChain missing).'',
                ''Returning simulated data for demonstration purposes.\<newline>''])
         else (\<lparr>api_key = key, model_name = model_name_arg, use_mock = mock,
                 llm = Some \<lparr>llm_api_key = key, llm_model = model_name_arg,
                             llm_temperature = 0\<rparr>\<rparr>,
               []))"

subsection \<open>Mock results\<close>

definition mock_analysis_result :: pyval where
  "mock_analysis_result =
     PyDict [
       (''intent'', PyStr ''legal_advice_request''),
       (''primary_topic'', PyStr ''termination_for_cause''),
       (''parties'', PyDict [
          (''client'', PyStr ''Acme Technologies Pvt. Ltd.''),
          (''counterparty'', PyStr ''Brightwave Solutions LLP'')]),
       (''agreement_reference'', PyDict [
          (''type'', PyStr ''Master Services Agreement''),
          (''date'', PyStr ''10 March 2023'')]),
       (''questions'', PyList [
          PyStr ''Whether we are contractually entitled to terminate for cause on the basis of repeated delays in delivery'',
          PyStr ''The minimum notice period required'']),
       (''requested_due_date'', PyStr ''18 November 2025''),
       (''urgency_level'', PyStr ''high'')]"

text \<open>The literal part of the mock reply that follows the interpolated date.\<close>

definition mock_draft_body :: string where
  "mock_draft_body =
     ''.\<newline>\<newline>'' @
     ''Regarding your query on termination for cause: Under Clause 9.2 of the Agreement, '' @
     ''repeated failure to meet delivery timelines explicitly constitutes a 'material breach.' '' @
     ''Therefore, you are contractually entitled to terminate the agreement on these grounds.\<newline>\<newline>'' @
     ''As per Clause 9.1 read in conjunction with Clause 10.2, the minimum notice period required '' @
     ''to effect this termination is thirty (30) days' prior written notice.\<newline>\<newline>'' @
     ''Please let us know if you would like our assistance in drafting the formal notice.\<newline>\<newline>'' @
     ''Regards,\<newline>'' @
     ''Legal Team''"

text \<open>
  \<^verbatim>\<open>_mock_draft_result\<close>: the two subscript chains are evaluated in the order of
  the f-string, and the first exception ends the call.
\<close>

definition mock_draft_result :: "runtime \<Rightarrow> pyval \<Rightarrow> error + string" where
  "mock_draft_result rt analysis =
     (case subscript2 analysis ''agreement_reference'' ''type'' of
        Inl e \<Rightarrow> Inl e
      | Inr t \<Rightarrow>
          (case subscript2 analysis ''agreement_reference'' ''date'' of
             Inl e \<Rightarrow> Inl e
           | Inr d \<Rightarrow>
               Inr (''Dear Ms. Sharma,\<newline>\<newline>'' @
                    ''Thank you for your email regarding the '' @ format_value rt t @ '' dated '' @
                    format_value rt d @ mock_draft_body)))"

subsection \<open>Analysis\<close>

definition system_prompt :: string where
  "system_prompt =
     ''You are a legal AI assistant. Extract structured data from the provided email.''"

definition analyze_request :: "ChatOpenAI \<Rightarrow> string \<Rightarrow> chain_request" where
  "analyze_request l email_text =
     \<lparr>request_llm = l,
      request_messages = [(''system'', system_prompt), (''human'', ''{input}'')],
      request_schema = Some EmailAnalysisSchema_class,
      request_input = [(''input'', PyStr email_text)]\<rparr>"

text \<open>
  A method returns its result (or the exception that escapes), the chain
  invocations it made, and the object afterwards.
\<close>

type_synonym 'a method_result = "(error + 'a) \<times> chain_request list \<times> LegalEmailAssistant"

definition analyze_email ::
  "runtime \<Rightarrow> LegalEmailAssistant \<Rightarrow> string \<Rightarrow> pyval method_result" where
  "analyze_email rt self email_text =
     (if use_mock self then (Inr mock_analysis_result, [], self)
      else
        (case llm self of
           None \<Rightarrow> (Inl (AttributeError ''llm''), [], self)
         | Some l \<Rightarrow>
             (let req = analyze_request l email_text
              in case invoke_structured rt req of
                   Inl e \<Rightarrow> (Inl e, [req], self)
                 | Inr None \<Rightarrow> (Inl (AttributeError ''dict''), [req], self)
                 | Inr (Some result) \<Rightarrow> (Inr (dict result), [req], self))))"

subsection \<open>Drafting\<close>

definition template :: string where
  "template =
     ''\<newline>'' @
     ''        You are a professional lawyer. Draft a reply to the following email based on the provided analysis and contract clauses.\<newline>'' @
     ''        \<newline>'' @
     ''        CONTEXT:\<newline>'' @
     ''        - Your Client: {client}\<newline>'' @
     ''        - Sender Name (address them): Derived from email signature\<newline>'' @
     ''        - Contract Clauses:\<newline>'' @
     ''        {contract_text}\<newline>'' @
     ''\<newline>'' @
     ''        INCOMING EMAIL:\<newline>'' @
     ''        {email_text}\<newline>'' @
     ''\<newline>'' @
     ''        ANALYSIS DATA:\<newline>'' @
     ''        {analysis_json}\<newline>'' @
     ''\<newline>'' @
     ''        REQUIREMENTS:\<newline>'' @
     ''        1. Use a professional legal tone.\<newline>'' @
     ''        2. Clearly answer the specific questions identified in the analysis.\<newline>'' @
     ''        3. Cite specific clauses (e.g., 9.1, 9.2, 10.2) to support your answers.\<newline>'' @
     ''        4. Explicitly mention that repeated failure to meet delivery timelines is a material breach.\<newline>'' @
     ''        5. State the notice period clearly.\<newline>'' @
     ''        6. Do NOT admit liability.\<newline>'' @
     ''        7. Keep it concise.\<newline>'' @
     ''        ''"

definition draft_request ::
  "runtime \<Rightarrow> ChatOpenAI \<Rightarrow> pyval \<Rightarrow> string \<Rightarrow> pyval \<Rightarrow> string \<Rightarrow> chain_request" where
  "draft_request rt l client_name email_text analysis contract_text =
     \<lparr>request_llm = l,
      request_messages = [(''human'', template)],
      request_schema = None,
      request_input = [(''client'', client_name),
                       (''contract_text'', PyStr contract_text),
                       (''email_text'', PyStr email_text),
                       (''analysis_json'', PyStr (json_dumps rt analysis))]\<rparr>"

definition draft_reply ::
  "runtime \<Rightarrow> LegalEmailAssistant \<Rightarrow> string \<Rightarrow> pyval \<Rightarrow> string \<Rightarrow> string method_result" where
  "draft_reply rt self email_text analysis contract_text =
     (if use_mock self then (mock_draft_result rt analysis, [], self)
      else
        (case llm self of
           None \<Rightarrow> (Inl (AttributeError ''llm''), [], self)
         | Some l \<Rightarrow>
             (case subscript2 analysis ''parties'' ''client'' of
                Inl e \<Rightarrow> (Inl e, [], self)
              | Inr c \<Rightarrow>
                  (let req = draft_request rt l c email_text analysis contract_text
                   in case invoke_chat rt req of
                        Inl e \<Rightarrow> (Inl e, [req], self)
                      | Inr content \<Rightarrow> (Inr content, [req], self)))))"

section \<open>Concrete surroundings and inputs\<close>

text \<open>
  A runtime without the library and without a credential in the environment, and
  one where the library is present and every chain invocation raises a
  connection error.
\<close>

definition offline_runtime :: runtime where
  "offline_runtime =
     \<lparr>LANGCHAIN_AVAILABLE = False, environ = (\<lambda>name. None), py_str = (\<lambda>v. ''None''),
      json_dumps = (\<lambda>v. ''{}''),
      invoke_structured = (\<lambda>req. Inl (ExternalError ''APIConnectionError'')),
      invoke_chat = (\<lambda>req. Inl (ExternalError ''APIConnectionError''))\<rparr>"

definition failing_runtime :: runtime where
  "failing_runtime = offline_runtime\<lparr>LANGCHAIN_AVAILABLE := True\<rparr>"

definition offline_assistant :: LegalEmailAssistant where
  "offline_assistant = fst (LegalEmailAssistant_init offline_runtime None default_model_name)"

definition live_assistant :: LegalEmailAssistant where
  "live_assistant =
     fst (LegalEmailAssistant_init failing_runtime (Some ''sk-test'') default_model_name)"

text \<open>A dictionary that holds the agreement reference and nothing else.\<close>

definition reference_only_record :: pyval where
  "reference_only_record =
     PyDict [(''agreement_reference'', PyDict [
        (''type'', PyStr ''Master Services Agreement''),
        (''date'', PyStr ''10 March 2023'')])]"

text \<open>
  Candidates for validation: the reference record with an empty question list
  and the urgency level \<^verbatim>\<open>"critical"\<close>, and, with the urgency level
  \<^verbatim>\<open>"high"\<close>, the same without \<^verbatim>\<open>counterparty\<close> and without the agreement
  \<^verbatim>\<open>date\<close>.
\<close>

definition critical_candidate :: pyval where
  "critical_candidate =
     PyDict [
       (''intent'', PyStr ''legal_advice_request''),
       (''primary_topic'', PyStr ''termination_for_cause''),
       (''parties'', PyDict [
          (''client'', PyStr ''Acme Technologies Pvt. Ltd.''),
          (''counterparty'', PyStr ''Brightwave Solutions LLP'')]),
       (''agreement_reference'', PyDict [
          (''type'', PyStr ''Master Services Agreement''),
          (''date'', PyStr ''10 March 2023'')]),
       (''questions'', PyList []),
       (''requested_due_date'', PyStr ''18 November 2025''),
       (''urgency_level'', PyStr ''critical'')]"

definition missing_counterparty_candidate :: pyval where
  "missing_counterparty_candidate =
     PyDict [
       (''intent'', PyStr ''legal_advice_request''),
       (''primary_topic'', PyStr ''termination_for_cause''),
       (''parties'', PyDict [(''client'', PyStr ''Acme Technologies Pvt. Ltd.'')]),
       (''agreement_reference'', PyDict [
          (''type'', PyStr ''Master Services Agreement''),
          (''date'', PyStr ''10 March 2023'')]),
       (''questions'', PyList []),
       (''requested_due_date'', PyStr ''18 November 2025''),
       (''urgency_level'', PyStr ''high'')]"

definition missing_date_candidate :: pyval where
  "missing_date_candidate =
     PyDict [
       (''intent'', PyStr ''legal_advice_request''),
       (''primary_topic'', PyStr ''termination_for_cause''),
       (''parties'', PyDict [
          (''client'', PyStr ''Acme Technologies Pvt. Ltd.''),
          (''counterparty'', PyStr ''Brightwave Solutions LLP'')]),
       (''agreement_reference'', PyDict [(''type'', PyStr ''Master Services Agreement'')]),
       (''questions'', PyList []),
       (''requested_due_date'', PyStr ''18 November 2025''),
       (''urgency_level'', PyStr ''high'')]"

text \<open>A runtime whose structured chain returns an instance.\<close>

definition answering_runtime :: runtime where
  "answering_runtime =
     failing_runtime\<lparr>invoke_structured := (\<lambda>req. Inr (Some
        \<lparr>intent = ''notice'', primary_topic = ''renewal'',
         parties = \<lparr>client = ''A'', counterparty = ''B''\<rparr>,
         agreement_reference = \<lparr>type = ''Lease'', date = ''1 May 2020''\<rparr>,
         questions = [], requested_due_date = '''', urgency_level = ''low''\<rparr>))\<rparr>"

section \<open>Auxiliary facts\<close>

lemma init_use_mock:
  "use_mock (fst (LegalEmailAssistant_init rt k m)) =
     (\<not> (truthy (py_or k (environ rt ''OPENAI_API_KEY'')) \<and> LANGCHAIN_AVAILABLE rt))"
  by (simp add: LegalEmailAssistant_init_def Let_def)

lemma offline_assistant_eq:
  "offline_assistant =
     \<lparr>api_key = None, model_name = ''gpt-4-turbo'', use_mock = True, llm = None\<rparr>"
  by (simp add: offline_assistant_def LegalEmailAssistant_init_def offline_runtime_def
      py_or_def default_model_name_def)

lemma live_assistant_eq:
  "live_assistant =
     \<lparr>api_key = Some ''sk-test'', model_name = ''gpt-4-turbo'', use_mock = False,
      llm = Some \<lparr>llm_api_key = Some ''sk-test'', llm_model = ''gpt-4-turbo'',
                  llm_temperature = 0\<rparr>\<rparr>"
  by (simp add: live_assistant_def LegalEmailAssistant_init_def failing_runtime_def
      offline_runtime_def py_or_def default_model_name_def Let_def)

lemma sublist_in_suffix: "sublist xs zs \<Longrightarrow> sublist xs (ys @ zs)"
  by (simp add: sublist_append)

lemma body_cites_9_2: "sublist ''Clause 9.2'' mock_draft_body"
  unfolding mock_draft_body_def by code_simp

lemma body_cites_9_1: "sublist ''Clause 9.1'' mock_draft_body"
  unfolding mock_draft_body_def by code_simp

lemma body_cites_10_2: "sublist ''Clause 10.2'' mock_draft_body"
  unfolding mock_draft_body_def by code_simp

lemma body_states_notice: "sublist ''thirty (30) days'' mock_draft_body"
  unfolding mock_draft_body_def by code_simp

lemma mock_reference_lookup:
  "subscript2 mock_analysis_result ''agreement_reference'' ''type'' =
     Inr (PyStr ''Master Services Agreement'')"
  "subscript2 mock_analysis_result ''agreement_reference'' ''date'' =
     Inr (PyStr ''10 March 2023'')"
  by (simp_all add: subscript2_def mock_analysis_result_def)

lemma mock_draft_reference_text:
  "mock_draft_result rt mock_analysis_result =
     Inr (''Dear Ms. Sharma,\<newline>\<newline>'' @
          ''Thank you for your email regarding the '' @ ''Master Services Agreement'' @
          '' dated '' @ ''10 March 2023'' @ mock_draft_body)"
  by (simp add: mock_draft_result_def mock_reference_lookup format_value_def)

lemma validate_items_strings: "validate_items l i (map PyStr qs) = Inr qs"
  by (induction qs arbitrary: i) (simp_all add: validate_str_def)

lemma validate_Inl_iff:
  "validate (PyDict kvs) = Inl (ValidationError es) \<longleftrightarrow> validate_fields kvs = Inl es"
  by (simp add: validate_def split: sum.split)

lemmas validate_defs =
  validate_def validate_fields_def required_def validate_str_def validate_Parties_def
  validate_AgreementReference_def validate_str_list_def

lemma validate_mock:
  "validate mock_analysis_result =
     Inr \<lparr>intent = ''legal_advice_request'', primary_topic = ''termination_for_cause'',
          parties = \<lparr>client = ''Acme Technologies Pvt. Ltd.'',
                     counterparty = ''Brightwave Solutions LLP''\<rparr>,
          agreement_reference = \<lparr>type = ''Master Services Agreement'', date = ''10 March 2023''\<rparr>,
          questions = [''Whether we are contractually entitled to terminate for cause on the basis of repeated delays in delivery'',
                       ''The minimum notice period required''],
          requested_due_date = ''18 November 2025'', urgency_level = ''high''\<rparr>"
  by (simp add: mock_analysis_result_def validate_defs)

lemma validate_dict: "validate (dict r) = Inr r"
  by (simp add: validate_defs dict_def Parties_dict_def AgreementReference_dict_def
      validate_items_strings)

lemma validate_fields_error:
  assumes "e \<in> set (errs (required kvs ''intent'' validate_str []))
         \<or> e \<in> set (errs (required kvs ''primary_topic'' validate_str []))
         \<or> e \<in> set (errs (required kvs ''parties'' validate_Parties []))
         \<or> e \<in> set (errs (required kvs ''agreement_reference'' validate_AgreementReference []))
         \<or> e \<in> set (errs (required kvs ''questions'' validate_str_list []))
         \<or> e \<in> set (errs (required kvs ''requested_due_date'' validate_str []))
         \<or> e \<in> set (errs (required kvs ''urgency_level'' validate_str []))"
  shows "\<exists>es. validate (PyDict kvs) = Inl (ValidationError es) \<and> e \<in> set es"
proof -
  let ?es = "errs (required kvs ''intent'' validate_str []) @
             errs (required kvs ''primary_topic'' validate_str []) @
             errs (required kvs ''parties'' validate_Parties []) @
             errs (required kvs ''agreement_reference'' validate_AgreementReference []) @
             errs (required kvs ''questions'' validate_str_list []) @
             errs (required kvs ''requested_due_date'' validate_str []) @
             errs (required kvs ''urgency_level'' validate_str [])"
  from assms have mem: "e \<in> set ?es"
    by auto
  then have "?es \<noteq> []"
    by (metis empty_iff empty_set)
  then have "validate_fields kvs = Inl ?es"
    unfolding validate_fields_def Let_def by (simp only: if_False)
  with mem show ?thesis
    unfolding validate_Inl_iff by blast
qed

lemma required_missing: "map_of kvs k = None \<Longrightarrow> errs (required kvs k val l) = [(l @ [Key k], missing)]"
  by (simp add: required_def)

section \<open>Mode resolution\<close>

text \<open>
  Claim C1. The service is in live mode exactly when a non-empty credential is
  available, as the construction argument or from the environment, and the
  model-invocation library is present; otherwise it is in mock mode. Neither
  method changes the object, so the mode chosen at construction stays.
\<close>

theorem mode_resolution:
  "(\<not> use_mock (fst (LegalEmailAssistant_init rt k m)) \<longleftrightarrow>
      ((\<exists>s. s \<noteq> [] \<and> (k = Some s \<or> environ rt ''OPENAI_API_KEY'' = Some s))
       \<and> LANGCHAIN_AVAILABLE rt))
   \<and> snd (snd (analyze_email rt self e)) = self
   \<and> snd (snd (draft_reply rt self e r c)) = self"
proof (intro conjI)
  show "(\<not> use_mock (fst (LegalEmailAssistant_init rt k m))) =
    ((\<exists>s. s \<noteq> [] \<and> (k = Some s \<or> environ rt ''OPENAI_API_KEY'' = Some s)) \<and>
     LANGCHAIN_AVAILABLE rt)"
  proof -
    have "truthy (py_or k (environ rt ''OPENAI_API_KEY'')) \<longleftrightarrow>
          (\<exists>s. s \<noteq> [] \<and> (k = Some s \<or> environ rt ''OPENAI_API_KEY'' = Some s))"
      by (cases k; cases "environ rt ''OPENAI_API_KEY''") (auto simp: py_or_def)
    then show ?thesis
      by (simp add: init_use_mock)
  qed
  show "snd (snd (analyze_email rt self e)) = self"
    by (simp add: analyze_email_def Let_def split: option.split sum.split)
  show "snd (snd (draft_reply rt self e r c)) = self"
    by (simp add: draft_reply_def Let_def split: option.split sum.split)
qed

theorem mode_resolution_witness:
  "\<not> use_mock live_assistant \<and> use_mock offline_assistant
   \<and> snd (snd (analyze_email failing_runtime live_assistant ''Dear Counsel'')) = live_assistant
   \<and> snd (snd (draft_reply failing_runtime live_assistant ''Dear Counsel''
                 mock_analysis_result ''9.1'')) = live_assistant"
  using mode_resolution [of failing_runtime "Some ''sk-test''" default_model_name live_assistant
      "''Dear Counsel''" mock_analysis_result "''9.1''"]
    mode_resolution [of offline_runtime None default_model_name offline_assistant
      "''Dear Counsel''" mock_analysis_result "''9.1''"]
  by (simp add: live_assistant_def offline_assistant_def failing_runtime_def offline_runtime_def)

section \<open>Mock mode\<close>

text \<open>
  Claim C2. In mock mode \<open>analyze_email\<close> returns the fixed reference record for
  every email text, and makes no chain invocation.
\<close>

theorem mock_analyze_fixed:
  "use_mock self \<Longrightarrow>
   analyze_email rt self email_text =
     (Inr (PyDict [
       (''intent'', PyStr ''legal_advice_request''),
       (''primary_topic'', PyStr ''termination_for_cause''),
       (''parties'', PyDict [
          (''client'', PyStr ''Acme Technologies Pvt. Ltd.''),
          (''counterparty'', PyStr ''Brightwave Solutions LLP'')]),
       (''agreement_reference'', PyDict [
          (''type'', PyStr ''Master Services Agreement''),
          (''date'', PyStr ''10 March 2023'')]),
       (''questions'', PyList [
          PyStr ''Whether we are contractually entitled to terminate for cause on the basis of repeated delays in delivery'',
          PyStr ''The minimum notice period required'']),
       (''requested_due_date'', PyStr ''18 November 2025''),
       (''urgency_level'', PyStr ''high'')]), [], self)"
  by (simp add: analyze_email_def mock_analysis_result_def)

theorem mock_analyze_fixed_witness:
  "use_mock offline_assistant \<and>
   analyze_email offline_runtime offline_assistant ''Dear Counsel'' =
     (Inr (PyDict [
       (''intent'', PyStr ''legal_advice_request''),
       (''primary_topic'', PyStr ''termination_for_cause''),
       (''parties'', PyDict [
          (''client'', PyStr ''Acme Technologies Pvt. Ltd.''),
          (''counterparty'', PyStr ''Brightwave Solutions LLP'')]),
       (''agreement_reference'', PyDict [
          (''type'', PyStr ''Master Services Agreement''),
          (''date'', PyStr ''10 March 2023'')]),
       (''questions'', PyList [
          PyStr ''Whether we are contractually entitled to terminate for cause on the basis of repeated delays in delivery'',
          PyStr ''The minimum notice period required'']),
       (''requested_due_date'', PyStr ''18 November 2025''),
       (''urgency_level'', PyStr ''high'')]), [], offline_assistant)"
proof -
  have m: "use_mock offline_assistant"
    by (simp add: offline_assistant_eq)
  show ?thesis
    using m mock_analyze_fixed [OF m, of offline_runtime "''Dear Counsel''"] by simp
qed

text \<open>
  Claim C4. In mock mode the reply does not depend on the email text or on the
  contract text.
\<close>

theorem mock_draft_independent:
  "use_mock self \<Longrightarrow>
   draft_reply rt self email_text1 record contract_text1 =
   draft_reply rt self email_text2 record contract_text2"
  by (simp add: draft_reply_def)

theorem mock_draft_independent_witness:
  "use_mock offline_assistant \<and>
   draft_reply offline_runtime offline_assistant ''Dear Counsel'' mock_analysis_result
     ''9.1 Either Party'' =
   draft_reply offline_runtime offline_assistant ''Hello'' mock_analysis_result ''''"
proof -
  have m: "use_mock offline_assistant"
    by (simp add: offline_assistant_eq)
  show ?thesis
    using m mock_draft_independent [OF m] by simp
qed

text \<open>
  Claim C10. In mock mode the reply is determined by what the two subscript
  chains \<^verbatim>\<open>['agreement_reference']['type']\<close> and \<^verbatim>\<open>['agreement_reference']['date']\<close>
  yield: two records that agree there get the same reply, whatever else they hold
  or lack. The record is not validated first.
\<close>

theorem mock_draft_reads_reference_only:
  assumes "use_mock self"
    and "subscript2 record1 ''agreement_reference'' ''type'' =
         subscript2 record2 ''agreement_reference'' ''type''"
    and "subscript2 record1 ''agreement_reference'' ''date'' =
         subscript2 record2 ''agreement_reference'' ''date''"
  shows "draft_reply rt self e1 record1 c1 = draft_reply rt self e2 record2 c2"
proof -
  have "mock_draft_result rt record1 = mock_draft_result rt record2"
    unfolding mock_draft_result_def assms(2) assms(3) ..
  with assms(1) show ?thesis
    by (simp add: draft_reply_def)
qed

theorem mock_draft_reads_reference_only_witness:
  "use_mock offline_assistant
   \<and> subscript2 mock_analysis_result ''agreement_reference'' ''type'' =
       subscript2 reference_only_record ''agreement_reference'' ''type''
   \<and> subscript2 mock_analysis_result ''agreement_reference'' ''date'' =
       subscript2 reference_only_record ''agreement_reference'' ''date''
   \<and> draft_reply offline_runtime offline_assistant ''Dear Counsel'' mock_analysis_result ''9.1'' =
       draft_reply offline_runtime offline_assistant ''Hello'' reference_only_record ''''
   \<and> isl (validate reference_only_record)"
proof -
  have m: "use_mock offline_assistant"
    by (simp add: offline_assistant_eq)
  have t: "subscript2 mock_analysis_result ''agreement_reference'' ''type'' =
       subscript2 reference_only_record ''agreement_reference'' ''type''"
    by (simp add: subscript2_def mock_analysis_result_def reference_only_record_def)
  have d: "subscript2 mock_analysis_result ''agreement_reference'' ''date'' =
       subscript2 reference_only_record ''agreement_reference'' ''date''"
    by (simp add: subscript2_def mock_analysis_result_def reference_only_record_def)
  have v: "isl (validate reference_only_record)"
    by (simp add: validate_def reference_only_record_def validate_fields_def required_def)
  show ?thesis
    using m t d v mock_draft_reads_reference_only [OF m t d] by simp
qed

text \<open>
  Claim C3. For the reference record the mock reply cites Clause 9.2, Clause 9.1
  and Clause 10.2, states the notice period of thirty (30) days, and contains the
  agreement type and date of the record, in the sentence that interpolates them.
  A second call on the object left by the first gives the same result.
\<close>

theorem mock_draft_reference:
  assumes "use_mock self"
  shows "\<exists>s. draft_reply rt self email_text mock_analysis_result contract_text = (Inr s, [], self)
     \<and> sublist ''Clause 9.2'' s \<and> sublist ''Clause 9.1'' s \<and> sublist ''Clause 10.2'' s
     \<and> sublist ''thirty (30) days'' s
     \<and> sublist ''Master Services Agreement'' s \<and> sublist ''10 March 2023'' s
     \<and> sublist ''regarding the Master Services Agreement dated 10 March 2023.'' s
     \<and> draft_reply rt (snd (snd (draft_reply rt self email_text mock_analysis_result contract_text)))
          email_text mock_analysis_result contract_text =
        draft_reply rt self email_text mock_analysis_result contract_text"
proof -
  let ?pre = "''Dear Ms. Sharma,\<newline>\<newline>'' @ ''Thank you for your email ''"
  let ?s = "''Dear Ms. Sharma,\<newline>\<newline>'' @
          ''Thank you for your email regarding the '' @ ''Master Services Agreement'' @ '' dated '' @
          ''10 March 2023'' @ mock_draft_body"
  have run: "draft_reply rt self email_text mock_analysis_result contract_text = (Inr ?s, [], self)"
    using assms by (simp add: draft_reply_def mock_draft_reference_text)
  have shape: "?s = ?pre @ ''regarding the Master Services Agreement dated 10 March 2023.'' @ tl mock_draft_body"
    by (simp add: mock_draft_body_def)
  have c1: "sublist ''Clause 9.2'' ?s"
    by (intro sublist_in_suffix body_cites_9_2)
  have c2: "sublist ''Clause 9.1'' ?s"
    by (intro sublist_in_suffix body_cites_9_1)
  have c3: "sublist ''Clause 10.2'' ?s"
    by (intro sublist_in_suffix body_cites_10_2)
  have c4: "sublist ''thirty (30) days'' ?s"
    by (intro sublist_in_suffix body_states_notice)
  have c5: "sublist ''Master Services Agreement'' ?s"
    by (intro sublist_in_suffix sublist_append_rightI)
  have c6: "sublist ''10 March 2023'' ?s"
    by (intro sublist_in_suffix sublist_append_rightI)
  have c7: "sublist ''regarding the Master Services Agreement dated 10 March 2023.'' ?s"
    unfolding shape by (rule sublist_appendI)
  have again: "draft_reply rt (snd (snd (draft_reply rt self email_text mock_analysis_result contract_text)))
          email_text mock_analysis_result contract_text =
        draft_reply rt self email_text mock_analysis_result contract_text"
    by (simp add: run)
  from run c1 c2 c3 c4 c5 c6 c7 again show ?thesis
    by blast
qed

theorem mock_draft_reference_witness:
  "use_mock offline_assistant \<and>
   (\<exists>s. draft_reply offline_runtime offline_assistant ''Dear Counsel'' mock_analysis_result ''9.1'' =
          (Inr s, [], offline_assistant)
     \<and> sublist ''Clause 9.2'' s \<and> sublist ''Clause 9.1'' s \<and> sublist ''Clause 10.2'' s
     \<and> sublist ''thirty (30) days'' s)"
proof -
  have m: "use_mock offline_assistant"
    by (simp add: offline_assistant_eq)
  show ?thesis
    using m mock_draft_reference [OF m, of offline_runtime "''Dear Counsel''" "''9.1''"] by blast
qed

section \<open>Schema validation\<close>

text \<open>
  Claim C5. Validation is to reject a candidate whose urgency level lies outside
  low, medium and high. The schema documents the field as
  \<^verbatim>\<open>"Inferred urgency: low, medium, or high"\<close> and declares it as a plain string:
  evaluated at a complete candidate whose urgency level is \<^verbatim>\<open>"critical"\<close>,
  validation accepts the candidate and builds the instance.
\<close>

theorem validate_accepts_critical:
  "validate critical_candidate =
     Inr \<lparr>intent = ''legal_advice_request'', primary_topic = ''termination_for_cause'',
          parties = \<lparr>client = ''Acme Technologies Pvt. Ltd.'',
                     counterparty = ''Brightwave Solutions LLP''\<rparr>,
          agreement_reference = \<lparr>type = ''Master Services Agreement'', date = ''10 March 2023''\<rparr>,
          questions = [], requested_due_date = ''18 November 2025'',
          urgency_level = ''critical''\<rparr>"
  by (simp add: critical_candidate_def validate_defs)

text \<open>
  Claim C6. A candidate that lacks one of the seven declared fields is rejected
  with a validation error that names the missing field, and so is a candidate
  whose \<^verbatim>\<open>parties\<close> lacks \<^verbatim>\<open>client\<close> or \<^verbatim>\<open>counterparty\<close>, or whose
  \<^verbatim>\<open>agreement_reference\<close> lacks \<^verbatim>\<open>type\<close> or \<^verbatim>\<open>date\<close>. The result is the
  error alone: no record is produced.
\<close>

theorem validate_rejects_missing:
  "(f \<in> {''intent'', ''primary_topic'', ''parties'', ''agreement_reference'', ''questions'',
          ''requested_due_date'', ''urgency_level''} \<and> map_of kvs f = None
      \<longrightarrow> (\<exists>es. validate (PyDict kvs) = Inl (ValidationError es) \<and> ([Key f], missing) \<in> set es))
   \<and> (map_of kvs ''parties'' = Some (PyDict ps) \<and> g \<in> {''client'', ''counterparty''}
        \<and> map_of ps g = None
      \<longrightarrow> (\<exists>es. validate (PyDict kvs) = Inl (ValidationError es)
                \<and> ([Key ''parties'', Key g], missing) \<in> set es))
   \<and> (map_of kvs ''agreement_reference'' = Some (PyDict ar) \<and> h \<in> {''type'', ''date''}
        \<and> map_of ar h = None
      \<longrightarrow> (\<exists>es. validate (PyDict kvs) = Inl (ValidationError es)
                \<and> ([Key ''agreement_reference'', Key h], missing) \<in> set es))"
proof (intro conjI impI)
  assume "f \<in> {''intent'', ''primary_topic'', ''parties'', ''agreement_reference'', ''questions'',
          ''requested_due_date'', ''urgency_level''} \<and> map_of kvs f = None"
  then have f: "f \<in> {''intent'', ''primary_topic'', ''parties'', ''agreement_reference'', ''questions'',
          ''requested_due_date'', ''urgency_level''}" and none: "map_of kvs f = None"
    by simp_all
  from f none show "\<exists>es. validate (PyDict kvs) = Inl (ValidationError es) \<and> ([Key f], missing) \<in> set es"
    by (intro validate_fields_error) (elim insertE emptyE; simp add: required_missing)
next
  assume "map_of kvs ''parties'' = Some (PyDict ps) \<and> g \<in> {''client'', ''counterparty''}
        \<and> map_of ps g = None"
  then have "([Key ''parties'', Key g], missing) \<in> set (errs (required kvs ''parties'' validate_Parties []))"
    by (auto simp: required_def validate_Parties_def Let_def)
  then show "\<exists>es. validate (PyDict kvs) = Inl (ValidationError es)
                \<and> ([Key ''parties'', Key g], missing) \<in> set es"
    by (intro validate_fields_error) simp
next
  assume "map_of kvs ''agreement_reference'' = Some (PyDict ar) \<and> h \<in> {''type'', ''date''}
        \<and> map_of ar h = None"
  then have "([Key ''agreement_reference'', Key h], missing)
      \<in> set (errs (required kvs ''agreement_reference'' validate_AgreementReference []))"
    by (auto simp: required_def validate_AgreementReference_def Let_def)
  then show "\<exists>es. validate (PyDict kvs) = Inl (ValidationError es)
                \<and> ([Key ''agreement_reference'', Key h], missing) \<in> set es"
    by (intro validate_fields_error) simp
qed

theorem validate_rejects_missing_witness:
  "(\<exists>es. validate (PyDict []) = Inl (ValidationError es) \<and> ([Key ''intent''], missing) \<in> set es)
   \<and> (\<exists>es. validate missing_counterparty_candidate = Inl (ValidationError es)
        \<and> ([Key ''parties'', Key ''counterparty''], missing) \<in> set es)
   \<and> (\<exists>es. validate missing_date_candidate = Inl (ValidationError es)
        \<and> ([Key ''agreement_reference'', Key ''date''], missing) \<in> set es)"
proof -
  have a: "\<exists>es. validate (PyDict []) = Inl (ValidationError es) \<and> ([Key ''intent''], missing) \<in> set es"
    using validate_rejects_missing [where f = "''intent''" and kvs = "[]"]
    by simp
  have b: "\<exists>es. validate missing_counterparty_candidate = Inl (ValidationError es)
        \<and> ([Key ''parties'', Key ''counterparty''], missing) \<in> set es"
    using validate_rejects_missing [where g = "''counterparty''"
      and ps = "[(''client'', PyStr ''Acme Technologies Pvt. Ltd.'')]"
      and kvs = "[(''intent'', PyStr ''legal_advice_request''),
       (''primary_topic'', PyStr ''termination_for_cause''),
       (''parties'', PyDict [(''client'', PyStr ''Acme Technologies Pvt. Ltd.'')]),
       (''agreement_reference'', PyDict [
          (''type'', PyStr ''Master Services Agreement''),
          (''date'', PyStr ''10 March 2023'')]),
       (''questions'', PyList []),
       (''requested_due_date'', PyStr ''18 November 2025''),
       (''urgency_level'', PyStr ''high'')]"]
    by (simp add: missing_counterparty_candidate_def)
  have c: "\<exists>es. validate missing_date_candidate = Inl (ValidationError es)
        \<and> ([Key ''agreement_reference'', Key ''date''], missing) \<in> set es"
    using validate_rejects_missing [where h = "''date''"
      and ar = "[(''type'', PyStr ''Master Services Agreement'')]"
      and kvs = "[(''intent'', PyStr ''legal_advice_request''),
       (''primary_topic'', PyStr ''termination_for_cause''),
       (''parties'', PyDict [
          (''client'', PyStr ''Acme Technologies Pvt. Ltd.''),
          (''counterparty'', PyStr ''Brightwave Solutions LLP'')]),
       (''agreement_reference'', PyDict [(''type'', PyStr ''Master Services Agreement'')]),
       (''questions'', PyList []),
       (''requested_due_date'', PyStr ''18 November 2025''),
       (''urgency_level'', PyStr ''high'')]"]
    by (simp add: missing_date_candidate_def)
  from a b c show ?thesis
    by blast
qed

text \<open>
  Claim C7. The fixed mock record validates: the instance built from it has both
  parties non-empty and an urgency level among low, medium and high, and turns back
  into the same dictionary. Every dictionary that \<open>analyze_email\<close> returns, in
  either mode, validates.
\<close>

theorem mock_record_validates:
  "(\<exists>r. validate mock_analysis_result = Inr r \<and> dict r = mock_analysis_result
        \<and> client (parties r) \<noteq> [] \<and> counterparty (parties r) \<noteq> []
        \<and> urgency_level r \<in> {''low'', ''medium'', ''high''})
   \<and> (fst (analyze_email rt self email_text) = Inr d \<longrightarrow> (\<exists>r. validate d = Inr r \<and> dict r = d))"
proof (intro conjI impI)
  show "\<exists>r. validate mock_analysis_result = Inr r \<and> dict r = mock_analysis_result
        \<and> client (parties r) \<noteq> [] \<and> counterparty (parties r) \<noteq> []
        \<and> urgency_level r \<in> {''low'', ''medium'', ''high''}"
    unfolding validate_mock
    by (simp add: dict_def Parties_dict_def AgreementReference_dict_def mock_analysis_result_def)
  then have mock: "\<exists>r. validate mock_analysis_result = Inr r \<and> dict r = mock_analysis_result"
    by blast
  assume "fst (analyze_email rt self email_text) = Inr d"
  then have "d = mock_analysis_result \<or> (\<exists>result. d = dict result)"
    by (auto simp: analyze_email_def Let_def split: if_splits option.splits sum.splits)
  with mock show "\<exists>r. validate d = Inr r \<and> dict r = d"
    using validate_dict by blast
qed

theorem mock_record_validates_witness:
  "fst (analyze_email answering_runtime live_assistant ''Dear Counsel'') =
     Inr (dict \<lparr>intent = ''notice'', primary_topic = ''renewal'',
         parties = \<lparr>client = ''A'', counterparty = ''B''\<rparr>,
         agreement_reference = \<lparr>type = ''Lease'', date = ''1 May 2020''\<rparr>,
         questions = [], requested_due_date = '''', urgency_level = ''low''\<rparr>)
   \<and> (\<exists>r. validate (dict \<lparr>intent = ''notice'', primary_topic = ''renewal'',
         parties = \<lparr>client = ''A'', counterparty = ''B''\<rparr>,
         agreement_reference = \<lparr>type = ''Lease'', date = ''1 May 2020''\<rparr>,
         questions = [], requested_due_date = '''', urgency_level = ''low''\<rparr>) = Inr r)"
proof -
  have run: "fst (analyze_email answering_runtime live_assistant ''Dear Counsel'') =
     Inr (dict \<lparr>intent = ''notice'', primary_topic = ''renewal'',
         parties = \<lparr>client = ''A'', counterparty = ''B''\<rparr>,
         agreement_reference = \<lparr>type = ''Lease'', date = ''1 May 2020''\<rparr>,
         questions = [], requested_due_date = '''', urgency_level = ''low''\<rparr>)"
    by (simp add: analyze_email_def live_assistant_eq answering_runtime_def Let_def)
  show ?thesis
    using run mock_record_validates [of answering_runtime live_assistant "''Dear Counsel''"]
    by blast
qed

section \<open>Live mode\<close>

text \<open>
  Claim C8. In live mode \<open>analyze_email\<close> makes one chain invocation: the prompt
  is the fixed system instruction and a human message that is the placeholder for
  the input, the requested output class is the analysis schema, and the only
  variable bound is the email text, unchanged.
\<close>

theorem live_analyze_request:
  assumes "self = fst (LegalEmailAssistant_init rt k m)" and "\<not> use_mock self"
  shows "fst (snd (analyze_email rt self email_text)) =
     [\<lparr>request_llm = \<lparr>llm_api_key = api_key self, llm_model = model_name self,
                       llm_temperature = 0\<rparr>,
       request_messages =
         [(''system'', ''You are a legal AI assistant. Extract structured data from the provided email.''),
          (''human'', ''{input}'')],
       request_schema = Some EmailAnalysisSchema_class,
       request_input = [(''input'', PyStr email_text)]\<rparr>]"
proof -
  from assms have l: "llm self = Some \<lparr>llm_api_key = api_key self, llm_model = model_name self,
                       llm_temperature = 0\<rparr>"
    by (simp add: LegalEmailAssistant_init_def Let_def split: if_splits)
  with assms(2) show ?thesis
    by (simp add: analyze_email_def Let_def analyze_request_def system_prompt_def
        split: sum.split option.split)
qed

theorem live_analyze_request_witness:
  "live_assistant = fst (LegalEmailAssistant_init failing_runtime (Some ''sk-test'') default_model_name)
   \<and> \<not> use_mock live_assistant
   \<and> fst (snd (analyze_email failing_runtime live_assistant ''Dear {Counsel}'')) =
     [\<lparr>request_llm = \<lparr>llm_api_key = Some ''sk-test'', llm_model = ''gpt-4-turbo'',
                       llm_temperature = 0\<rparr>,
       request_messages =
         [(''system'', ''You are a legal AI assistant. Extract structured data from the provided email.''),
          (''human'', ''{input}'')],
       request_schema = Some EmailAnalysisSchema_class,
       request_input = [(''input'', PyStr ''Dear {Counsel}'')]\<rparr>]"
proof -
  have a: "live_assistant = fst (LegalEmailAssistant_init failing_runtime (Some ''sk-test'') default_model_name)"
    by (simp add: live_assistant_def)
  have b: "\<not> use_mock live_assistant"
    by (simp add: live_assistant_eq)
  have r: "fst (snd (analyze_email failing_runtime live_assistant ''Dear {Counsel}'')) =
     [\<lparr>request_llm = \<lparr>llm_api_key = Some ''sk-test'', llm_model = ''gpt-4-turbo'',
                       llm_temperature = 0\<rparr>,
       request_messages =
         [(''system'', ''You are a legal AI assistant. Extract structured data from the provided email.''),
          (''human'', ''{input}'')],
       request_schema = Some EmailAnalysisSchema_class,
       request_input = [(''input'', PyStr ''Dear {Counsel}'')]\<rparr>]"
    using live_analyze_request [OF a b, of "''Dear {Counsel}''"]
    by (simp add: live_assistant_eq)
  from a b r show ?thesis
    by blast
qed

text \<open>
  Claim C9, as stated, fails: when the chain raises, the exception that escapes
  \<open>analyze_email\<close> is the one the library raised, and the same exception value
  escapes \<open>draft_reply\<close>; it is not an error that names the extraction stage.
\<close>

theorem extraction_failure_not_wrapped:
  "fst (analyze_email failing_runtime live_assistant ''Dear Counsel'') =
     Inl (ExternalError ''APIConnectionError'')
   \<and> fst (draft_reply failing_runtime live_assistant ''Dear Counsel'' mock_analysis_result ''9.1'') =
     Inl (ExternalError ''APIConnectionError'')"
  by (simp add: analyze_email_def draft_reply_def live_assistant_eq failing_runtime_def
      offline_runtime_def Let_def subscript2_def mock_analysis_result_def)

text \<open>
  Claim C9, amended. In live mode, when the chain invocation raises,
  \<open>analyze_email\<close> lets that exception escape unchanged: the caller gets the
  library's exception and no record, so in particular not the mock record, and
  the object is unchanged.
\<close>

theorem live_analyze_failure_propagates:
  assumes "self = fst (LegalEmailAssistant_init rt k m)" and "\<not> use_mock self"
    and "invoke_structured rt
           (analyze_request \<lparr>llm_api_key = api_key self, llm_model = model_name self,
                             llm_temperature = 0\<rparr> email_text) = Inl e"
  shows "fst (analyze_email rt self email_text) = Inl e
       \<and> fst (analyze_email rt self email_text) \<noteq> Inr mock_analysis_result
       \<and> snd (snd (analyze_email rt self email_text)) = self"
proof -
  from assms(1,2) have l: "llm self = Some \<lparr>llm_api_key = api_key self,
      llm_model = model_name self, llm_temperature = 0\<rparr>"
    by (simp add: LegalEmailAssistant_init_def Let_def split: if_splits)
  with assms(2,3) show ?thesis
    by (simp add: analyze_email_def Let_def)
qed

theorem live_analyze_failure_propagates_witness:
  "live_assistant =
     fst (LegalEmailAssistant_init failing_runtime (Some ''sk-test'') default_model_name)
   \<and> \<not> use_mock live_assistant
   \<and> invoke_structured failing_runtime
        (analyze_request \<lparr>llm_api_key = Some ''sk-test'', llm_model = ''gpt-4-turbo'',
                          llm_temperature = 0\<rparr> ''Dear Counsel'') =
      Inl (ExternalError ''APIConnectionError'')
   \<and> fst (analyze_email failing_runtime live_assistant ''Dear Counsel'') =
      Inl (ExternalError ''APIConnectionError'')
   \<and> snd (snd (analyze_email failing_runtime live_assistant ''Dear Counsel'')) = live_assistant"
proof -
  have a: "live_assistant =
      fst (LegalEmailAssistant_init failing_runtime (Some ''sk-test'') default_model_name)"
    by (simp add: live_assistant_def)
  have b: "\<not> use_mock live_assistant"
    by (simp add: live_assistant_eq)
  have d: "invoke_structured failing_runtime
        (analyze_request \<lparr>llm_api_key = Some ''sk-test'', llm_model = ''gpt-4-turbo'',
                          llm_temperature = 0\<rparr> ''Dear Counsel'') =
      Inl (ExternalError ''APIConnectionError'')"
    by (simp add: failing_runtime_def offline_runtime_def)
  have c: "invoke_structured failing_runtime
        (analyze_request \<lparr>llm_api_key = api_key live_assistant,
           llm_model = model_name live_assistant, llm_temperature = 0\<rparr> ''Dear Counsel'') =
      Inl (ExternalError ''APIConnectionError'')"
    using d by (simp add: live_assistant_eq)
  from a b d live_analyze_failure_propagates [OF a b c] show ?thesis
    by blast
qed

end
